theory Spec2Isabelle
  imports Main
begin

section \<open>JavaScript values the handlers work on\<close>

text \<open>
  The handlers are modelled from the point where Express calls them: \<^verbatim>\<open>req.params\<close>
  holds the decoded path segments and \<^verbatim>\<open>req.body\<close> the object parsed from the JSON
  body. What a handler passes to \<^verbatim>\<open>res.json\<close> or \<^verbatim>\<open>res.status(404).json\<close> is its
  response; the module-level array or object it works on is passed in and returned.

  A JavaScript string is a sequence of UTF-16 code units. Route parameters are such
  strings. \<open>js\<close> writes an ASCII literal as code units.
\<close>

type_synonym jsstring = "nat list"

definition js :: "string \<Rightarrow> jsstring" where
  "js s = map of_char s"

text \<open>
  A value taken from the parsed JSON body (\<^verbatim>\<open>req.body\<close>): either a Number with an integer
  value, or any other value (\<^verbatim>\<open>undefined\<close> for a missing field, \<^verbatim>\<open>null\<close>, a string, an
  array, an object, a fractional Number), which the handlers store and never inspect.
  \<open>Num n\<close> is the Number whose exact value is the integer \<open>n\<close>; \<open>NumInfinity\<close> and
  \<open>NumNegInfinity\<close> are the two infinite Numbers, which \<^verbatim>\<open>JSON.parse\<close> returns for a
  numeral beyond the range of the Number type.
\<close>

datatype 'v jsvalue = Num int | NumInfinity | NumNegInfinity | Other 'v

text \<open>
  The result of \<^verbatim>\<open>parseInt\<close>: \<^verbatim>\<open>NaN\<close>, an integral Number given by its exact value, or
  one of the infinite Numbers.
\<close>

datatype number = NaN | Number int | Infinity | NegInfinity

subsection \<open>The built-in \<^verbatim>\<open>parseInt(string)\<close>, called without a radix\<close>

text \<open>
  ECMAScript \<^verbatim>\<open>parseInt\<close>: leading white space and line terminators are dropped, one
  sign is read, a prefix \<^verbatim>\<open>0x\<close> or \<^verbatim>\<open>0X\<close> selects radix 16 (radix 10 otherwise), and
  the longest prefix of digits of that radix is the value; with no digit the result
  is \<^verbatim>\<open>NaN\<close>. Whatever follows the digits is ignored.

  The result is a Number, a double-precision float: the integer read from the digits
  is rounded to the nearest Number, ties to the even significand. Integers below
  \<open>2 ^ 53 = 9007199254740992\<close> are Numbers themselves; a larger one keeps its 53
  leading bits, rounded; one that rounds to \<open>2 ^ 1024\<close> or more becomes infinite.
  \<^verbatim>\<open>-0\<close> is strictly equal to \<^verbatim>\<open>0\<close> and is modelled as \<open>0\<close>.
\<close>

definition isWhiteSpace :: "nat \<Rightarrow> bool" where
  "isWhiteSpace c \<longleftrightarrow>
     c = 9 \<or> c = 10 \<or> c = 11 \<or> c = 12 \<or> c = 13 \<or> c = 32 \<or> c = 160 \<or> c = 5760 \<or>
     (8192 \<le> c \<and> c \<le> 8202) \<or> c = 8232 \<or> c = 8233 \<or> c = 8239 \<or> c = 8287 \<or>
     c = 12288 \<or> c = 65279"

definition digitValue :: "nat \<Rightarrow> nat option" where
  "digitValue c =
     (if 48 \<le> c \<and> c \<le> 57 then Some (c - 48)
      else if 97 \<le> c \<and> c \<le> 122 then Some (c - 87)
      else if 65 \<le> c \<and> c \<le> 90 then Some (c - 55)
      else None)"

definition isRadixDigit :: "nat \<Rightarrow> nat \<Rightarrow> bool" where
  "isRadixDigit R c = (case digitValue c of Some d \<Rightarrow> d < R | None \<Rightarrow> False)"

definition mathInt :: "nat \<Rightarrow> jsstring \<Rightarrow> nat" where
  "mathInt R Z =
     foldl (\<lambda>acc c. case digitValue c of Some d \<Rightarrow> acc * R + d | None \<Rightarrow> acc) 0 Z"

definition stripSign :: "jsstring \<Rightarrow> int \<times> jsstring" where
  "stripSign S =
     (case S of
        [] \<Rightarrow> (1, S)
      | c # rest \<Rightarrow> if c = 45 then (- 1, rest) else if c = 43 then (1, rest) else (1, S))"

definition stripPrefix :: "jsstring \<Rightarrow> nat \<times> jsstring" where
  "stripPrefix S =
     (case S of
        a # b # rest \<Rightarrow> if a = 48 \<and> (b = 120 \<or> b = 88) then (16, rest) else (10, S)
      | _ \<Rightarrow> (10, S))"

fun bitLength :: "nat \<Rightarrow> nat" where
  "bitLength n = (if n = 0 then 0 else Suc (bitLength (n div 2)))"

declare bitLength.simps [simp del]

text \<open>The Number nearest to a natural number; \<open>None\<close> when that is \<^verbatim>\<open>Infinity\<close>.\<close>

definition roundToNumber :: "nat \<Rightarrow> nat option" where
  "roundToNumber m =
     (if m < 9007199254740992 then Some m
      else
        let e = bitLength m - 53;
            q = m div 2 ^ e;
            r = m mod 2 ^ e;
            half = 2 ^ (e - 1);
            q' = (if half < r \<or> (r = half \<and> odd q) then q + 1 else q);
            v = q' * 2 ^ e
        in if v < 2 ^ 1024 then Some v else None)"

definition parseInt :: "jsstring \<Rightarrow> number" where
  "parseInt inputString =
     (let (sign, S) = stripSign (dropWhile isWhiteSpace inputString);
          (R, S') = stripPrefix S;
          Z = takeWhile (isRadixDigit R) S'
      in if Z = [] then NaN
         else case roundToNumber (mathInt R Z) of
                Some v \<Rightarrow> Number (sign * int v)
              | None \<Rightarrow> if sign = 1 then Infinity else NegInfinity)"

section \<open>Product service\<close>

record product =
  pid :: int
  name :: string
  price :: int

definition products :: "product list" where
  "products =
     [\<lparr>pid = 1, name = ''Product A'', price = 10\<rparr>,
      \<lparr>pid = 2, name = ''Product B'', price = 20\<rparr>]"

datatype product_response =
    ProductList "product list"
  | ProductFound product
  | ProductNotFound

text \<open>\<^verbatim>\<open>GET /products\<close>: the whole array.\<close>

definition listAll :: "product list \<Rightarrow> product_response" where
  "listAll ps = ProductList ps"

text \<open>
  \<^verbatim>\<open>GET /products/:id\<close>: the first product whose \<^verbatim>\<open>id\<close> is strictly equal to
  \<^verbatim>\<open>parseInt(req.params.id)\<close>; \<^verbatim>\<open>NaN\<close> is equal to nothing.
\<close>

definition getById :: "jsstring \<Rightarrow> product list \<Rightarrow> product_response" where
  "getById id_param ps =
     (case find (\<lambda>p. parseInt id_param = Number (pid p)) ps of
        Some product \<Rightarrow> ProductFound product
      | None \<Rightarrow> ProductNotFound)"

definition product_statusCode :: "product_response \<Rightarrow> nat" where
  "product_statusCode r = (case r of ProductNotFound \<Rightarrow> 404 | _ \<Rightarrow> 200)"

section \<open>Cart service\<close>

record 'v cart_line =
  productId :: "'v jsvalue"
  quantity :: "'v jsvalue"

text \<open>
  \<^verbatim>\<open>const carts = {}\<close> is an ordinary object used as a dictionary. Reading
  \<^verbatim>\<open>carts[userId]\<close> gives the object's own property when there is one, otherwise the
  property of that name inherited from \<^verbatim>\<open>Object.prototype\<close> (a function, or for
  \<^verbatim>\<open>__proto__\<close> the prototype object itself), otherwise \<^verbatim>\<open>undefined\<close>. Own properties
  are the arrays the handlers store; every array is truthy, the inherited values are
  truthy and have neither \<^verbatim>\<open>push\<close> nor \<^verbatim>\<open>filter\<close>.
\<close>

type_synonym 'v carts = "jsstring \<Rightarrow> 'v cart_line list option"

definition Object_prototype :: "jsstring list" where
  "Object_prototype =
     map js [''constructor'', ''__defineGetter__'', ''__defineSetter__'', ''hasOwnProperty'',
             ''__lookupGetter__'', ''__lookupSetter__'', ''isPrototypeOf'',
             ''propertyIsEnumerable'', ''toString'', ''valueOf'', ''__proto__'',
             ''toLocaleString'']"

datatype 'a property = Undefined | Own 'a | Inherited

definition getProperty :: "(jsstring \<Rightarrow> 'a option) \<Rightarrow> jsstring \<Rightarrow> 'a property" where
  "getProperty obj key =
     (case obj key of
        Some v \<Rightarrow> Own v
      | None \<Rightarrow> if key \<in> set Object_prototype then Inherited else Undefined)"

text \<open>
  The responses of the cart service. \<open>TypeError\<close> is the uncaught exception of a call to
  a method the value does not have, which Express answers with status 500.
  \<open>InheritedView\<close> is \<^verbatim>\<open>res.json\<close> of an inherited value: status 200 and a body that is
  not an array.
\<close>

datatype 'v cart_response =
    ItemAdded "'v cart_line list"
  | ItemRemoved "'v cart_line list"
  | CartNotFound
  | CartView "'v cart_line list"
  | InheritedView
  | TypeError

definition cart_statusCode :: "'v cart_response \<Rightarrow> nat" where
  "cart_statusCode r = (case r of CartNotFound \<Rightarrow> 404 | TypeError \<Rightarrow> 500 | _ \<Rightarrow> 200)"

text \<open>
  \<^verbatim>\<open>POST /cart/:userId\<close>. Line 14 stores an empty array when \<^verbatim>\<open>carts[userId]\<close> is
  falsy, line 15 pushes the new line onto \<^verbatim>\<open>carts[userId]\<close>, line 16 answers with
  the array.
\<close>

definition addItem ::
  "jsstring \<Rightarrow> 'v jsvalue \<Rightarrow> 'v jsvalue \<Rightarrow> 'v carts \<Rightarrow> 'v cart_response \<times> 'v carts" where
  "addItem userId_param productId_body quantity_body carts =
     (let carts1 = (if getProperty carts userId_param = Undefined
                    then carts(userId_param \<mapsto> [])
                    else carts)
      in case getProperty carts1 userId_param of
           Own cart \<Rightarrow>
             (let cart' = cart @ [\<lparr>productId = productId_body, quantity = quantity_body\<rparr>]
              in (ItemAdded cart', carts1(userId_param \<mapsto> cart')))
         | _ \<Rightarrow> (TypeError, carts1))"

text \<open>
  \<^verbatim>\<open>item.productId !== parseInt(productId)\<close>: strict inequality of a stored value and
  a \<^verbatim>\<open>parseInt\<close> result. Only two Numbers of the same value are strictly equal, and
  \<^verbatim>\<open>NaN\<close> is unequal to everything.
\<close>

fun strictNotEqual :: "'v jsvalue \<Rightarrow> number \<Rightarrow> bool" where
  "strictNotEqual (Num n) (Number m) = (n \<noteq> m)"
| "strictNotEqual NumInfinity Infinity = False"
| "strictNotEqual NumNegInfinity NegInfinity = False"
| "strictNotEqual _ _ = True"

text \<open>\<^verbatim>\<open>DELETE /cart/:userId/:productId\<close>.\<close>

definition removeItem ::
  "jsstring \<Rightarrow> jsstring \<Rightarrow> 'v carts \<Rightarrow> 'v cart_response \<times> 'v carts" where
  "removeItem userId_param productId_param carts =
     (case getProperty carts userId_param of
        Undefined \<Rightarrow> (CartNotFound, carts)
      | Own cart \<Rightarrow>
          (let cart' = filter (\<lambda>item. strictNotEqual (productId item) (parseInt productId_param)) cart
           in (ItemRemoved cart', carts(userId_param \<mapsto> cart')))
      | Inherited \<Rightarrow> (TypeError, carts))"

text \<open>\<^verbatim>\<open>GET /cart/:userId\<close>: \<^verbatim>\<open>res.json(carts[userId] || [])\<close>.\<close>

definition getCart :: "jsstring \<Rightarrow> 'v carts \<Rightarrow> 'v cart_response" where
  "getCart userId_param carts =
     (case getProperty carts userId_param of
        Undefined \<Rightarrow> CartView []
      | Own cart \<Rightarrow> CartView cart
      | Inherited \<Rightarrow> InheritedView)"

section \<open>Order service\<close>

record 'v order =
  orderId :: int
  userId :: "'v jsvalue"
  items :: "'v jsvalue"
  status :: string

datatype 'v order_response =
    OrderCreated int
  | OrderFound "'v order"
  | OrderNotFound


text \<open>\<^verbatim>\<open>POST /orders\<close>: the new identifier is \<^verbatim>\<open>orders.length + 1\<close>.\<close>

definition createOrder ::
  "'v jsvalue \<Rightarrow> 'v jsvalue \<Rightarrow> 'v order list \<Rightarrow> 'v order_response \<times> 'v order list" where
  "createOrder userId_body items_body orders =
     (let newId = int (length orders) + 1
      in (OrderCreated newId,
          orders @ [\<lparr>orderId = newId, userId = userId_body, items = items_body,
                     status = ''pending''\<rparr>]))"

text \<open>\<^verbatim>\<open>GET /orders/:orderId\<close>.\<close>

definition getOrder :: "jsstring \<Rightarrow> 'v order list \<Rightarrow> 'v order_response" where
  "getOrder orderId_param orders =
     (case find (\<lambda>o'. parseInt orderId_param = Number (orderId o')) orders of
        Some order \<Rightarrow> OrderFound order
      | None \<Rightarrow> OrderNotFound)"

section \<open>The JSON body parser in front of the routes\<close>








section \<open>Sequences of requests\<close>

text \<open>
  Node.js runs each handler to completion before it takes the next request, so a
  service that has answered a sequence of requests has applied the handlers one after
  the other to its store. The handlers here are synchronous: the one of
  \<^verbatim>\<open>POST /orders\<close> has no \<^verbatim>\<open>await\<close>, callback or I/O between reading \<^verbatim>\<open>orders.length\<close> and
  \<^verbatim>\<open>orders.push\<close>. Submissions that arrive simultaneously are therefore served as some
  interleaving of whole handler runs: for two clients that submit the sequences \<open>xs\<close>
  and \<open>ys\<close>, as one of the lists in \<open>shuffles xs ys\<close>.
\<close>

text \<open>A sequence of \<^verbatim>\<open>POST /orders\<close> requests: the responses and the final store.\<close>

fun createOrders ::
  "('v jsvalue \<times> 'v jsvalue) list \<Rightarrow> 'v order list \<Rightarrow>
     'v order_response list \<times> 'v order list" where
  "createOrders [] orders = ([], orders)"
| "createOrders ((userId_body, items_body) # reqs) orders =
     (let (r, orders1) = createOrder userId_body items_body orders;
          (rs, orders2) = createOrders reqs orders1
      in (r # rs, orders2))"

text \<open>A sequence of \<^verbatim>\<open>POST /cart/:userId\<close> requests of one user: the final store.\<close>

fun addItems :: "jsstring \<Rightarrow> ('v jsvalue \<times> 'v jsvalue) list \<Rightarrow> 'v carts \<Rightarrow> 'v carts" where
  "addItems userId_param [] carts = carts"
| "addItems userId_param ((productId_body, quantity_body) # reqs) carts =
     addItems userId_param reqs (snd (addItem userId_param productId_body quantity_body carts))"

text \<open>
  The three services side by side, as the gateway exposes them: each request is
  forwarded by its path prefix to one service, which works on its own store.
\<close>

record 'v platform =
  productStore :: "product list"
  cartStore :: "'v carts"
  orderStore :: "'v order list"

datatype 'v request =
    GET_products
  | GET_products_id jsstring
  | POST_cart jsstring "'v jsvalue" "'v jsvalue"
  | DELETE_cart jsstring jsstring
  | GET_cart jsstring
  | POST_orders "'v jsvalue" "'v jsvalue"
  | GET_orders_id jsstring

datatype 'v response =
    ProductResponse product_response
  | CartResponse "'v cart_response"
  | OrderResponse "'v order_response"

fun route :: "'v request \<Rightarrow> 'v platform \<Rightarrow> 'v response \<times> 'v platform" where
  "route GET_products s = (ProductResponse (listAll (productStore s)), s)"
| "route (GET_products_id id_param) s =
     (ProductResponse (getById id_param (productStore s)), s)"
| "route (POST_cart userId_param productId_body quantity_body) s =
     (let (r, carts') = addItem userId_param productId_body quantity_body (cartStore s)
      in (CartResponse r, s\<lparr>cartStore := carts'\<rparr>))"
| "route (DELETE_cart userId_param productId_param) s =
     (let (r, carts') = removeItem userId_param productId_param (cartStore s)
      in (CartResponse r, s\<lparr>cartStore := carts'\<rparr>))"
| "route (GET_cart userId_param) s = (CartResponse (getCart userId_param (cartStore s)), s)"
| "route (POST_orders userId_body items_body) s =
     (let (r, orders') = createOrder userId_body items_body (orderStore s)
      in (OrderResponse r, s\<lparr>orderStore := orders'\<rparr>))"
| "route (GET_orders_id orderId_param) s =
     (OrderResponse (getOrder orderId_param (orderStore s)), s)"

fun serve :: "'v request list \<Rightarrow> 'v platform \<Rightarrow> 'v platform" where
  "serve [] s = s"
| "serve (req # reqs) s = serve reqs (snd (route req s))"

text \<open>The stores at process start.\<close>

definition start :: "'v platform" where
  "start = \<lparr>productStore = products, cartStore = Map.empty, orderStore = []\<rparr>"

text \<open>
  The decimal numeral of a natural number: the path segment a client sends to ask for
  the order with that identifier.
\<close>

fun decimal :: "nat \<Rightarrow> jsstring" where
  "decimal n = (if n < 10 then [48 + n] else decimal (n div 10) @ [48 + n mod 10])"

declare decimal.simps [simp del]

section \<open>Evaluation and auxiliary facts\<close>

lemmas parseInt_eval =
  parseInt_def js_def stripSign_def stripPrefix_def isWhiteSpace_def isRadixDigit_def
  digitValue_def mathInt_def roundToNumber_def Let_def

lemma find_append_last:
  "\<forall>y \<in> set xs. \<not> P y \<Longrightarrow> P x \<Longrightarrow> find P (xs @ [x]) = Some x"
  by (induction xs) auto

lemma upto_next:
  "[int len + 1 .. int len + int (Suc n)] =
     (int len + 1) # [int (Suc len) + 1 .. int (Suc len) + int n]"
  using upto_rec1 [of "int len + 1" "int len + int (Suc n)"] by (simp add: algebra_simps)

lemma createOrders_snd_Cons:
  "snd (createOrders ((u, i) # reqs) orders) =
     snd (createOrders reqs (snd (createOrder u i orders)))"
  by (simp add: split_beta Let_def)

lemma createOrders_fst_Cons:
  "fst (createOrders ((u, i) # reqs) orders) =
     fst (createOrder u i orders) # fst (createOrders reqs (snd (createOrder u i orders)))"
  by (simp add: split_beta Let_def)

lemma createOrder_snd:
  "snd (createOrder u i orders) =
     orders @ [\<lparr>orderId = int (length orders) + 1, userId = u, items = i, status = ''pending''\<rparr>]"
  by (simp add: createOrder_def Let_def)

lemma createOrder_fst:
  "fst (createOrder u i orders) = OrderCreated (int (length orders) + 1)"
  by (simp add: createOrder_def Let_def)

lemma createOrders_length:
  "length (snd (createOrders reqs orders)) = length orders + length reqs"
proof (induction reqs arbitrary: orders)
  case Nil
  show ?case by simp
next
  case (Cons req reqs)
  obtain u i where req: "req = (u, i)" by (cases req)
  show ?case unfolding req createOrders_snd_Cons Cons.IH
    by (simp add: createOrder_snd)
qed

lemma createOrders_ids:
  "map orderId (snd (createOrders reqs orders)) =
     map orderId orders @ [int (length orders) + 1 .. int (length orders) + int (length reqs)]"
proof (induction reqs arbitrary: orders)
  case Nil
  show ?case by simp
next
  case (Cons req reqs)
  obtain u i where req: "req = (u, i)" by (cases req)
  show ?case unfolding req createOrders_snd_Cons Cons.IH
    by (simp add: createOrder_snd upto_next del: of_nat_Suc)
qed

lemma createOrders_responses:
  "fst (createOrders reqs orders) =
     map OrderCreated [int (length orders) + 1 .. int (length orders) + int (length reqs)]"
proof (induction reqs arbitrary: orders)
  case Nil
  show ?case by simp
next
  case (Cons req reqs)
  obtain u i where req: "req = (u, i)" by (cases req)
  show ?case unfolding req createOrders_fst_Cons Cons.IH
    by (simp add: createOrder_snd createOrder_fst upto_next del: of_nat_Suc)
qed

lemma createOrders_status:
  "map status (snd (createOrders reqs orders)) =
     map status orders @ replicate (length reqs) ''pending''"
proof (induction reqs arbitrary: orders)
  case Nil
  show ?case by simp
next
  case (Cons req reqs)
  obtain u i where req: "req = (u, i)" by (cases req)
  show ?case unfolding req createOrders_snd_Cons Cons.IH
    by (simp add: createOrder_snd)
qed

lemma createOrders_ids_bounded:
  "o' \<in> set (snd (createOrders reqs [])) \<Longrightarrow> orderId o' \<le> int (length reqs)"
proof -
  assume "o' \<in> set (snd (createOrders reqs []))"
  then have "orderId o' \<in> set (map orderId (snd (createOrders reqs [])))" by simp
  then show ?thesis unfolding createOrders_ids by simp
qed

lemmas cart_eval = getProperty_def Object_prototype_def js_def Let_def


subsection \<open>Decimal numerals are read back by \<^verbatim>\<open>parseInt\<close>\<close>

lemma decimal_digits: "c \<in> set (decimal n) \<Longrightarrow> 48 \<le> c \<and> c \<le> 57"
proof (induction n arbitrary: c rule: decimal.induct)
  case (1 n)
  show ?case
  proof (cases "n < 10")
    case True
    with "1.prems" show ?thesis by (simp add: decimal.simps [of n])
  next
    case False
    with "1.prems" "1.IH" show ?thesis
      by (auto simp: decimal.simps [of n])
  qed
qed

lemma decimal_not_Nil: "decimal n \<noteq> []"
  by (simp add: decimal.simps [of n])

lemma mathInt_snoc:
  "mathInt R (Z @ [c]) = (case digitValue c of Some d \<Rightarrow> mathInt R Z * R + d | None \<Rightarrow> mathInt R Z)"
  unfolding mathInt_def by (cases "digitValue c") simp_all

lemma mathInt_decimal: "mathInt 10 (decimal n) = n"
proof (induction n rule: decimal.induct)
  case (1 n)
  show ?case
  proof (cases "n < 10")
    case True
    then show ?thesis by (simp add: decimal.simps [of n] mathInt_def digitValue_def)
  next
    case False
    have "digitValue (48 + n mod 10) = Some (n mod 10)"
      by (simp add: digitValue_def)
    with False "1.IH" show ?thesis
      by (simp add: decimal.simps [of n] mathInt_snoc)
  qed
qed

lemma decimal_single: "decimal n = [c] \<Longrightarrow> n < 10 \<and> c = 48 + n"
proof (cases "n < 10")
  case True
  assume "decimal n = [c]"
  with True show ?thesis by (simp add: decimal.simps [of n])
next
  case False
  assume "decimal n = [c]"
  with False have "decimal (n div 10) @ [48 + n mod 10] = [c]"
    by (simp add: decimal.simps [of n])
  then have "decimal (n div 10) = []" by simp
  then show ?thesis using decimal_not_Nil by blast
qed

lemma parseInt_decimal_append:
  assumes "case t of [] \<Rightarrow> True
           | c # _ \<Rightarrow> \<not> isRadixDigit 10 c \<and> (n = 0 \<longrightarrow> c \<noteq> 120 \<and> c \<noteq> 88)"
  shows "parseInt (decimal n @ t) =
           (case roundToNumber n of Some v \<Rightarrow> Number (int v) | None \<Rightarrow> Infinity)"
proof -
  obtain c rest where S: "decimal n = c # rest"
    using decimal_not_Nil [of n] by (cases "decimal n") auto
  have digits: "\<And>d. d \<in> set (decimal n) \<Longrightarrow> 48 \<le> d \<and> d \<le> 57"
    by (rule decimal_digits)
  have c: "48 \<le> c" "c \<le> 57" using digits [of c] by (simp_all add: S)
  have ws: "dropWhile isWhiteSpace (decimal n @ t) = decimal n @ t"
    using c by (simp add: S isWhiteSpace_def)
  have sign: "stripSign (decimal n @ t) = (1, decimal n @ t)"
    using c by (simp add: S stripSign_def)
  have prefix: "stripPrefix (decimal n @ t) = (10, decimal n @ t)"
  proof (cases rest)
    case (Cons b r)
    then have "48 \<le> b \<and> b \<le> 57" using digits [of b] by (simp add: S)
    then show ?thesis by (auto simp: S Cons stripPrefix_def)
  next
    case Nil
    show ?thesis
    proof (cases t)
      case Nil
      then show ?thesis by (simp add: S \<open>rest = []\<close> stripPrefix_def)
    next
      case (Cons d t')
      from S \<open>rest = []\<close> have "n < 10 \<and> c = 48 + n" by (simp add: decimal_single)
      with assms Cons have "\<not> (c = 48 \<and> (d = 120 \<or> d = 88))" by auto
      then show ?thesis by (auto simp: S \<open>rest = []\<close> Cons stripPrefix_def)
    qed
  qed
  have all: "isRadixDigit 10 d" if "d \<in> set (decimal n)" for d
  proof -
    from digits [OF that] have "48 \<le> d" "d \<le> 57" by simp_all
    then show ?thesis by (simp add: isRadixDigit_def digitValue_def)
  qed
  have "takeWhile (isRadixDigit 10) t = []"
    using assms by (cases t) simp_all
  then have Z: "takeWhile (isRadixDigit 10) (decimal n @ t) = decimal n"
    using all by (simp add: takeWhile_append2)
  show ?thesis
    by (cases "roundToNumber n")
       (simp_all add: parseInt_def ws sign prefix Z decimal_not_Nil mathInt_decimal)
qed


lemma parseInt_decimal:
  assumes "n < 9007199254740992"
  shows "parseInt (decimal n) = Number (int n)"
  using parseInt_decimal_append [where t = "[]" and n = n] assms
  by (simp add: roundToNumber_def)

subsection \<open>Numerals beyond \<open>2 ^ 53\<close> are rounded\<close>

lemma roundToNumber_small: "m < 9007199254740992 \<Longrightarrow> roundToNumber m = Some m"
  by (simp add: roundToNumber_def)

lemma parseInt_rounds:
  "parseInt (js ''9007199254740993'') = Number 9007199254740992"
  by (simp add: parseInt_eval bitLength.simps)

lemma parseInt_rounds_up:
  "parseInt (js ''9007199254740995'') = Number 9007199254740996"
  by (simp add: parseInt_eval bitLength.simps)

lemma removeItem_rounds:
  "removeItem (js ''u'') (js ''9007199254740993'')
     [js ''u'' \<mapsto> [\<lparr>productId = Num 9007199254740992, quantity = Num 1 :: unit jsvalue\<rparr>]] =
   (ItemRemoved [], [js ''u'' \<mapsto> []])"
proof -
  have "parseInt (js ''9007199254740993'') = Number 9007199254740992"
    by (simp add: parseInt_eval bitLength.simps)
  then show ?thesis
    by (simp add: removeItem_def getProperty_def js_def)
qed

subsection \<open>What the lookups answer\<close>






subsection \<open>The product store is never written\<close>

lemma route_productStore: "productStore (snd (route req s)) = productStore s"
  by (cases req) (simp_all add: split_beta)

lemma serve_productStore: "productStore (serve reqs s) = productStore s"
  by (induction reqs arbitrary: s) (simp_all add: route_productStore)

subsection \<open>Cart handlers on names that are not inherited\<close>

text \<open>
  For a userId that is not the name of a property of \<^verbatim>\<open>Object.prototype\<close> the cart
  handlers behave as a dictionary of carts: adding appends and creates the cart when
  absent, viewing returns the lines in the order they were added, removing answers
  404 without a cart and otherwise keeps, in order, the lines whose productId is not
  strictly equal to the parsed parameter.
\<close>

lemma getProperty_update_other:
  "u \<noteq> u' \<Longrightarrow> getProperty (carts(u' \<mapsto> c)) u = getProperty carts u"
  by (simp add: getProperty_def)

lemma getProperty_update_same: "getProperty (carts(u \<mapsto> c)) u = Own c"
  by (simp add: getProperty_def)

lemma addItem_other:
  "u \<noteq> u' \<Longrightarrow> getProperty (snd (addItem u' p q carts)) u = getProperty carts u"
  by (cases "getProperty carts u'")
     (simp_all add: addItem_def Let_def getProperty_update_other getProperty_update_same)

lemma removeItem_other:
  "u \<noteq> u' \<Longrightarrow> getProperty (snd (removeItem u' p carts)) u = getProperty carts u"
  by (cases "getProperty carts u'")
     (simp_all add: removeItem_def Let_def getProperty_update_other)

lemma addItem_other_own:
  "u \<noteq> u' \<Longrightarrow> snd (addItem u' p q carts) u = carts u"
  by (cases "getProperty carts u'")
     (simp_all add: addItem_def Let_def getProperty_update_same)

lemma removeItem_other_own:
  "u \<noteq> u' \<Longrightarrow> snd (removeItem u' p carts) u = carts u"
  by (cases "getProperty carts u'") (simp_all add: removeItem_def Let_def)

lemma addItem_not_inherited:
  assumes "u \<notin> set Object_prototype"
  shows "addItem u p q carts =
           (ItemAdded ((case carts u of None \<Rightarrow> [] | Some c \<Rightarrow> c) @ [\<lparr>productId = p, quantity = q\<rparr>]),
            carts(u \<mapsto> (case carts u of None \<Rightarrow> [] | Some c \<Rightarrow> c) @ [\<lparr>productId = p, quantity = q\<rparr>]))"
  using assms by (cases "carts u") (simp_all add: addItem_def getProperty_def Let_def)

lemma getCart_not_inherited:
  assumes "u \<notin> set Object_prototype"
  shows "getCart u carts = CartView (case carts u of None \<Rightarrow> [] | Some c \<Rightarrow> c)"
  using assms by (cases "carts u") (simp_all add: getCart_def getProperty_def)

lemma addItems_getCart:
  assumes "u \<notin> set Object_prototype"
  shows "getCart u (addItems u reqs carts) =
           CartView ((case carts u of None \<Rightarrow> [] | Some c \<Rightarrow> c) @
                     map (\<lambda>(p, q). \<lparr>productId = p, quantity = q\<rparr>) reqs)"
proof (induction reqs arbitrary: carts)
  case Nil
  show ?case by (simp add: getCart_not_inherited [OF assms])
next
  case (Cons req reqs)
  obtain p q where req: "req = (p, q)" by (cases req)
  have step: "addItems u (req # reqs) carts =
      addItems u reqs
        (carts(u \<mapsto> (case carts u of None \<Rightarrow> [] | Some c \<Rightarrow> c) @
           [\<lparr>productId = p, quantity = q\<rparr>]))"
    by (simp add: req addItem_not_inherited [OF assms])
  show ?case unfolding step Cons.IH by (simp add: req)
qed

lemma removeItem_no_cart:
  "carts u = None \<Longrightarrow> u \<notin> set Object_prototype \<Longrightarrow> removeItem u p carts = (CartNotFound, carts)"
  by (simp add: removeItem_def getProperty_def)

lemma removeItem_cart:
  "carts u = Some c \<Longrightarrow>
   removeItem u p carts =
     (ItemRemoved (filter (\<lambda>item. strictNotEqual (productId item) (parseInt p)) c),
      carts(u \<mapsto> filter (\<lambda>item. strictNotEqual (productId item) (parseInt p)) c))"
  by (simp add: removeItem_def getProperty_def Let_def)

lemma strictNotEqual_Number: "strictNotEqual v (Number n) \<longleftrightarrow> v \<noteq> Num n"
  by (cases v) auto

lemma getCart_no_cart:
  "carts u = None \<Longrightarrow> u \<notin> set Object_prototype \<Longrightarrow> getCart u carts = CartView []"
  by (simp add: getCart_def getProperty_def)

lemma getCart_statusCode: "cart_statusCode (getCart u carts) = 200"
  by (cases "getProperty carts u") (simp_all add: getCart_def cart_statusCode_def)

section \<open>Product service: lookup\<close>

text \<open>
  C4. For each identifier of the seeded catalog, 1 and 2, \<open>getById\<close> answers with exactly
  the seeded record; for every other identifier (any other integer, and \<^verbatim>\<open>NaN\<close>) it
  answers 404 "Product not found". The identifier is what \<^verbatim>\<open>parseInt\<close> reads from the
  path parameter.
\<close>

theorem getById_seeded:
  "(parseInt id_param = Number 1 \<longrightarrow>
      getById id_param products = ProductFound \<lparr>pid = 1, name = ''Product A'', price = 10\<rparr>)
   \<and> (parseInt id_param = Number 2 \<longrightarrow>
      getById id_param products = ProductFound \<lparr>pid = 2, name = ''Product B'', price = 20\<rparr>)
   \<and> (parseInt id_param \<noteq> Number 1 \<and> parseInt id_param \<noteq> Number 2 \<longrightarrow>
      getById id_param products = ProductNotFound
      \<and> product_statusCode (getById id_param products) = 404)"
  by (simp add: getById_def products_def product_statusCode_def)

theorem getById_seeded_witness:
  "getById (js ''1'') products = ProductFound \<lparr>pid = 1, name = ''Product A'', price = 10\<rparr>
   \<and> getById (js ''2'') products = ProductFound \<lparr>pid = 2, name = ''Product B'', price = 20\<rparr>
   \<and> getById (js ''3'') products = ProductNotFound
   \<and> getById (js ''0'') products = ProductNotFound
   \<and> getById (js ''-1'') products = ProductNotFound"
proof -
  have "parseInt (js ''1'') = Number 1" "parseInt (js ''2'') = Number 2"
    "parseInt (js ''3'') = Number 3" "parseInt (js ''0'') = Number 0"
    "parseInt (js ''-1'') = Number (- 1)"
    by (simp_all add: parseInt_eval)
  then show ?thesis
    using getById_seeded [of "js ''1''"] getById_seeded [of "js ''2''"]
      getById_seeded [of "js ''3''"] getById_seeded [of "js ''0''"]
      getById_seeded [of "js ''-1''"]
    by simp
qed

text \<open>
  C7. Whatever sequence of requests (cart, order or product requests) the platform
  has served since process start, \<open>listAll\<close> answers with the two seeded records in seed
  order: no handler writes the product store.
\<close>

theorem listAll_unchanged:
  "fst (route GET_products (serve reqs start)) =
     ProductResponse (ProductList [\<lparr>pid = 1, name = ''Product A'', price = 10\<rparr>,
                                   \<lparr>pid = 2, name = ''Product B'', price = 20\<rparr>])
   \<and> productStore (serve reqs start) = products"
  by (simp add: serve_productStore start_def listAll_def products_def)

theorem listAll_unchanged_witness:
  "fst (route GET_products
     (serve [POST_cart (js ''123'') (Num 1) (Num 5), DELETE_cart (js ''123'') (js ''1''),
             POST_orders (Other ''1'') (Other ''[]'')] start)) =
     ProductResponse (ProductList [\<lparr>pid = 1, name = ''Product A'', price = 10\<rparr>,
                                   \<lparr>pid = 2, name = ''Product B'', price = 20\<rparr>])"
  using listAll_unchanged
    [of "[POST_cart (js ''123'') (Num 1) (Num 5), DELETE_cart (js ''123'') (js ''1''),
          POST_orders (Other ''1'') (Other ''[]'')]"]
  by blast

section \<open>Identifiers that are not numerals\<close>




section \<open>Order service: identifiers and round trip\<close>

text \<open>
  C1. For every sequence of \<open>createOrder\<close> calls served one after the other from the
  empty store, the identifiers returned are those of the stored orders, they are
  1, 2, ..., n, hence strictly increasing and unique, each stored order has status
  "pending", and every call (on any store) returns the number of existing orders plus
  one.
\<close>

theorem createOrder_sequential_ids:
  fixes reqs :: "('v jsvalue \<times> 'v jsvalue) list"
  defines "store \<equiv> snd (createOrders reqs [])"
  defines "ids \<equiv> map orderId store"
  shows "fst (createOrders reqs []) = map OrderCreated ids
       \<and> ids = [1 .. int (length reqs)]
       \<and> sorted_wrt (<) ids \<and> distinct ids
       \<and> map status store = replicate (length reqs) ''pending''
       \<and> fst (createOrder u i orders) = OrderCreated (int (length orders) + 1)"
proof -
  have ids: "ids = [1 .. int (length reqs)]"
    unfolding ids_def store_def by (simp add: createOrders_ids)
  have "fst (createOrders reqs []) = map OrderCreated ids"
    unfolding ids by (simp add: createOrders_responses)
  moreover have "map status store = replicate (length reqs) ''pending''"
    unfolding store_def by (simp add: createOrders_status)
  ultimately show ?thesis
    using ids by (simp add: createOrder_fst)
qed

theorem createOrder_sequential_ids_witness:
  "fst (createOrders [(Other ''1'', Other ''[]''), (Other ''1'', Other ''[]'')] []) =
     [OrderCreated 1, OrderCreated 2]
   \<and> map orderId (snd (createOrders [(Other ''1'', Other ''[]''), (Other ''1'', Other ''[]'')] [])) =
     [1, 2]
   \<and> map status (snd (createOrders [(Other ''1'', Other ''[]''), (Other ''1'', Other ''[]'')] [])) =
     [''pending'', ''pending'']"
proof -
  let ?reqs = "[(Other ''1'', Other ''[]''), (Other ''1'', Other ''[]'')]"
  have n: "length ?reqs = Suc (Suc 0)" by simp
  have up: "[1 .. int (Suc (Suc 0))] = [1, 2]" by (simp add: upto_rec1 [of 1 2])
  from createOrder_sequential_ids [of ?reqs "Other ''1''" "Other ''[]''" "[]"]
  show ?thesis unfolding n up by (simp add: createOrder_def Let_def)
qed

text \<open>
  C2. Round trip: on any store reached by \<open>createOrder\<close> calls from the empty store, a
  further \<open>createOrder\<close> with any userId and items, followed by \<open>getOrder\<close> with a path
  parameter that reads as the returned identifier, yields exactly the record with that
  identifier, the same userId, the same items and status "pending".
\<close>

theorem createOrder_getOrder_roundtrip:
  assumes "createOrder u i (snd (createOrders reqs [])) = (OrderCreated n, orders')"
    and "parseInt orderId_param = Number n"
  shows "getOrder orderId_param orders' =
           OrderFound \<lparr>orderId = n, userId = u, items = i, status = ''pending''\<rparr>"
proof -
  let ?orders = "snd (createOrders reqs [])"
  let ?new = "\<lparr>orderId = n, userId = u, items = i, status = ''pending''\<rparr>"
  from assms(1) have n: "n = int (length ?orders) + 1" and orders': "orders' = ?orders @ [?new]"
    by (auto simp: createOrder_def Let_def)
  have len: "length ?orders = length reqs" by (simp add: createOrders_length)
  have "\<forall>y \<in> set ?orders. \<not> (parseInt orderId_param = Number (orderId y))"
    using createOrders_ids_bounded [of _ reqs] assms(2) n len by fastforce
  then have "find (\<lambda>o'. parseInt orderId_param = Number (orderId o')) (?orders @ [?new]) = Some ?new"
    by (rule find_append_last) (simp add: assms(2))
  then show ?thesis by (simp add: getOrder_def orders')
qed

theorem createOrder_getOrder_roundtrip_witness:
  "getOrder (js ''2'')
     (snd (createOrder (Other ''1'') (Other ''[]'')
        (snd (createOrders [(Other ''7'', Other ''[]'')] [])))) =
   OrderFound \<lparr>orderId = 2, userId = Other ''1'', items = Other ''[]'', status = ''pending''\<rparr>"
proof -
  have c: "createOrder (Other ''1'') (Other ''[]'') (snd (createOrders [(Other ''7'', Other ''[]'')] [])) =
        (OrderCreated 2,
         snd (createOrder (Other ''1'') (Other ''[]'')
           (snd (createOrders [(Other ''7'', Other ''[]'')] []))))"
    by (simp add: createOrder_def Let_def)
  have p: "parseInt (js ''2'') = Number 2"
    by (simp add: parseInt_eval)
  show ?thesis
    by (rule createOrder_getOrder_roundtrip [OF c p])
qed

section \<open>Order service: simultaneous submissions\<close>




section \<open>Cart service: isolation and inherited names\<close>

text \<open>
  C10. For distinct userIds \<open>u\<close> and \<open>u'\<close>, an \<open>addItem\<close> or a \<open>removeItem\<close> on \<open>u'\<close> leaves
  what the store holds for \<open>u\<close> as it was, a cart or no cart, and so leaves the answer
  of \<open>getCart\<close> for \<open>u\<close> as it was.
\<close>

theorem cart_isolation:
  assumes "u \<noteq> u'"
  shows "snd (addItem u' productId_body quantity_body carts) u = carts u
       \<and> snd (removeItem u' productId_param carts) u = carts u
       \<and> getCart u (snd (addItem u' productId_body quantity_body carts)) = getCart u carts
       \<and> getCart u (snd (removeItem u' productId_param carts)) = getCart u carts"
  using assms
  by (simp add: addItem_other_own removeItem_other_own getCart_def addItem_other removeItem_other)

theorem cart_isolation_witness:
  "js ''alice'' \<noteq> js ''bob''
   \<and> snd (addItem (js ''bob'') (Num 1) (Num 5)
          [js ''alice'' \<mapsto> [\<lparr>productId = Num 2, quantity = Num (1::int) :: unit jsvalue\<rparr>]])
        (js ''alice'') = Some [\<lparr>productId = Num 2, quantity = Num 1\<rparr>]
   \<and> snd (removeItem (js ''bob'') (js ''2'')
          [js ''alice'' \<mapsto> [\<lparr>productId = Num 2, quantity = Num (1::int) :: unit jsvalue\<rparr>]])
        (js ''alice'') = Some [\<lparr>productId = Num 2, quantity = Num 1\<rparr>]
   \<and> snd (addItem (js ''alice'') (Num 1) (Num 5) (Map.empty :: unit carts)) (js ''bob'') = None"
proof -
  have ne: "js ''alice'' \<noteq> js ''bob''" "js ''bob'' \<noteq> js ''alice''"
    by (simp_all add: js_def)
  show ?thesis
    using ne cart_isolation [OF ne(1), of "Num 1" "Num 5"
        "[js ''alice'' \<mapsto> [\<lparr>productId = Num 2, quantity = Num 1 :: unit jsvalue\<rparr>]]" "js ''2''"]
      cart_isolation [OF ne(2), of "Num 1" "Num 5" "Map.empty :: unit carts"]
    by simp
qed

text \<open>
  C3, at the userId \<^verbatim>\<open>toString\<close> on the empty store. No cart exists for it, but
  \<^verbatim>\<open>carts[userId]\<close> reads the inherited function, which is truthy, and the call of its
  missing \<^verbatim>\<open>filter\<close> raises: \<open>removeItem\<close> answers 500, not 404 "Cart not found", and
  the store is unchanged.
\<close>

theorem removeItem_inherited_name:
  "removeItem (js ''toString'') (js ''1'') (Map.empty :: unit carts) = (TypeError, Map.empty)
   \<and> cart_statusCode (fst (removeItem (js ''toString'') (js ''1'') (Map.empty :: unit carts))) = 500"
  by (simp add: removeItem_def cart_statusCode_def cart_eval)

text \<open>
  C5, at the userId \<^verbatim>\<open>constructor\<close> on the empty store. \<^verbatim>\<open>carts[userId]\<close> reads the
  inherited function, so no cart is created and the call of its missing \<^verbatim>\<open>push\<close>
  raises: \<open>addItem\<close> answers 500 and stores nothing, and \<open>getCart\<close> afterwards answers
  with the inherited value, not with the line that was added.
\<close>

theorem addItem_inherited_name:
  "addItem (js ''constructor'') (Num 1) (Num 5) (Map.empty :: unit carts) = (TypeError, Map.empty)
   \<and> getCart (js ''constructor'')
        (addItems (js ''constructor'') [(Num 1, Num 5)] (Map.empty :: unit carts)) = InheritedView"
  by (simp add: addItem_def getCart_def cart_eval)

text \<open>
  C6, at the userId \<^verbatim>\<open>__proto__\<close> on the empty store. No cart is stored for it, yet
  \<open>getCart\<close> answers with the inherited prototype object, not with an empty sequence,
  and \<open>removeItem\<close> raises instead of answering 404.
\<close>

theorem getCart_inherited_name:
  "getCart (js ''__proto__'') (Map.empty :: unit carts) = InheritedView
   \<and> fst (removeItem (js ''__proto__'') (js ''1'') (Map.empty :: unit carts)) = TypeError"
  by (simp add: removeItem_def getCart_def cart_eval)

end
